theory Spec2Isabelle
  imports Complex_Main
begin

section \<open>Projectile simulator: atmosphere, integrator and trajectory store\<close>

text \<open>
  The embedding follows \<^verbatim>\<open>src/lab01/source.js\<close>. JavaScript numbers are read as exact
  real numbers: \<^verbatim>\<open>Math.sqrt\<close>, \<^verbatim>\<open>Math.cos\<close>, \<^verbatim>\<open>Math.sin\<close>, \<^verbatim>\<open>Math.exp\<close> and \<^verbatim>\<open>Math.PI\<close>
  are \<open>sqrt\<close>, \<open>cos\<close>, \<open>sin\<close>, \<open>exp\<close> and \<open>pi\<close>, and \<^verbatim>\<open>Math.pow\<close> on a non-negative base
  is \<open>powr\<close>. Rounding, infinities and NaN produced by arithmetic are outside this
  reading; the one NaN the source tests for (the parsed time step) and the three it
  replaces by zero are modelled as \<open>None\<close> of an option type. Step counts and indices are
  natural numbers. Writes to the page (log lines, table, legend, canvas) change no
  variable of the script and are left out, except that the warning a rejected call
  logs is returned as the call's outcome.
\<close>

subsection \<open>Constants\<close>

definition COLORS :: "string list" where
  "COLORS = [''#00d4ff'', ''#ff6b35'', ''#7fff7f'', ''#ff4fa3'',
             ''#ffd700'', ''#b06fff'', ''#ff9999'', ''#00ffcc'']"

definition MAX_TRAJ :: nat where
  "MAX_TRAJ = 20"

definition G :: real where
  "G = 9.81"

definition maxSteps :: nat where
  "maxSteps = 20000000"

subsection \<open>ISA atmosphere density\<close>

text \<open>\<^verbatim>\<open>getAirDensity\<close>: every selector other than the two constant ones takes the ISA branch.\<close>

definition getAirDensity :: "real \<Rightarrow> string \<Rightarrow> real" where
  "getAirDensity altMeters model =
     (if model = ''const'' then 1.225
      else if model = ''const129'' then 1.29
      else
        let alt = (if altMeters < 0 then 0 else altMeters) in
        if alt \<le> 11000 then
          (let T = 288.15 - 0.0065 * alt in 1.225 * ((T / 288.15) powr 4.2561))
        else 0.3639 * exp (- 0.0001576 * (alt - 11000)))"

subsection \<open>Physics simulation\<close>

record point =
  p_x :: real
  p_y :: real

text \<open>The mutable locals of the loop of \<^verbatim>\<open>runPhysics\<close>.\<close>

record loopst =
  ls_vx :: real
  ls_vy :: real
  ls_x :: real
  ls_y :: real
  ls_pts :: "point list"
  ls_maxH :: real
  ls_steps :: nat

record physres =
  r_pts :: "point list"
  r_range :: real
  r_maxH :: real
  r_finalV :: real
  r_steps :: nat

text \<open>The horizontal wind component and the initial velocity, as computed before the loop.\<close>

definition windXOf :: "real \<Rightarrow> real \<Rightarrow> real" where
  "windXOf windSpeed windDirDeg = windSpeed * cos (windDirDeg * pi / 180)"

definition initVx :: "real \<Rightarrow> real \<Rightarrow> real" where
  "initVx v0 angleDeg = v0 * cos (angleDeg * pi / 180)"

definition initVy :: "real \<Rightarrow> real \<Rightarrow> real" where
  "initVy v0 angleDeg = v0 * sin (angleDeg * pi / 180)"

text \<open>
  First half of the loop body: density, drag factor, relative velocity, acceleration,
  then the velocity update followed by the position update with the new velocity.
\<close>

definition integrateStep ::
  "real \<Rightarrow> real \<Rightarrow> real \<Rightarrow> real \<Rightarrow> real \<Rightarrow> string \<Rightarrow> loopst \<Rightarrow> loopst" where
  "integrateStep cd area mass dt windX atmoModel s =
     (let rho = getAirDensity (ls_y s) atmoModel;
          k = 0.5 * cd * rho * area / mass;
          vrx = ls_vx s - windX;
          vry = ls_vy s;
          vr = sqrt (vrx * vrx + vry * vry);
          ax = (if vr > 0 then 0 - k * vrx * vr else 0);
          ay = (if vr > 0 then - G - k * vry * vr else - G);
          vx' = ls_vx s + ax * dt;
          vy' = ls_vy s + ay * dt;
          x' = ls_x s + vx' * dt;
          y' = ls_y s + vy' * dt
      in s\<lparr>ls_vx := vx', ls_vy := vy', ls_x := x', ls_y := y'\<rparr>)"

text \<open>
  Second half of the loop body: running maximum, ground crossing (interpolation against
  the last recorded point and clamping of \<open>y\<close> to 0), point retention and the step
  counter. The point list is never empty, so \<open>last\<close> reads a recorded point.
\<close>

definition keepPoint :: "nat \<Rightarrow> bool" where
  "keepPoint steps \<longleftrightarrow> steps < 50000 \<or> steps mod (max 1 (steps div 5000)) = 0"

definition loopBody ::
  "real \<Rightarrow> real \<Rightarrow> real \<Rightarrow> real \<Rightarrow> real \<Rightarrow> string \<Rightarrow> loopst \<Rightarrow> loopst" where
  "loopBody cd area mass dt windX atmoModel s =
     (let u = integrateStep cd area mass dt windX atmoModel s;
          maxH' = (if ls_y u > ls_maxH u then ls_y u else ls_maxH u);
          prev = last (ls_pts u);
          frac = p_y prev / (p_y prev - ls_y u);
          x' = (if ls_y u < 0 then p_x prev + frac * (ls_x u - p_x prev) else ls_x u);
          y' = (if ls_y u < 0 then 0 else ls_y u);
          pts' = (if keepPoint (ls_steps u)
                  then ls_pts u @ [\<lparr>p_x = x', p_y = y'\<rparr>] else ls_pts u)
      in u\<lparr>ls_x := x', ls_y := y', ls_pts := pts', ls_maxH := maxH',
            ls_steps := ls_steps u + 1\<rparr>)"

function physLoop ::
  "real \<Rightarrow> real \<Rightarrow> real \<Rightarrow> real \<Rightarrow> real \<Rightarrow> string \<Rightarrow> loopst \<Rightarrow> loopst" where
  "physLoop cd area mass dt windX atmoModel s =
     (if ls_y s \<ge> 0 \<and> ls_steps s < maxSteps
      then physLoop cd area mass dt windX atmoModel
             (loopBody cd area mass dt windX atmoModel s)
      else s)"
  by pat_completeness auto
termination
  by (relation "measure (\<lambda>(cd, area, mass, dt, windX, atmoModel, s). maxSteps - ls_steps s)")
     (auto simp: loopBody_def integrateStep_def Let_def)

declare physLoop.simps [simp del]

definition runPhysics ::
  "real \<Rightarrow> real \<Rightarrow> real \<Rightarrow> real \<Rightarrow> real \<Rightarrow> real \<Rightarrow> real \<Rightarrow> real \<Rightarrow> real \<Rightarrow> string \<Rightarrow> physres" where
  "runPhysics v0 angleDeg mass cd area dt y0 windSpeed windDirDeg atmoModel =
     (let windX = windXOf windSpeed windDirDeg;
          s0 = \<lparr>ls_vx = initVx v0 angleDeg, ls_vy = initVy v0 angleDeg,
                ls_x = 0, ls_y = y0, ls_pts = [\<lparr>p_x = 0, p_y = y0\<rparr>],
                ls_maxH = y0, ls_steps = 0\<rparr>;
          s = physLoop cd area mass dt windX atmoModel s0
      in \<lparr>r_pts = ls_pts s, r_range = ls_x s, r_maxH = ls_maxH s,
          r_finalV = sqrt (ls_vx s * ls_vx s + ls_vy s * ls_vy s),
          r_steps = ls_steps s\<rparr>)"

subsection \<open>Simulate: the state of the script\<close>

text \<open>One stored trajectory: the object \<^verbatim>\<open>entry\<close> pushed by \<^verbatim>\<open>simulate\<close>.\<close>

record entry =
  e_dt :: real
  e_color :: string
  e_shapeName :: string
  e_cd :: real
  e_atmo :: string
  e_windSpeed :: real
  e_pts :: "point list"
  e_range :: real
  e_maxH :: real
  e_finalV :: real
  e_steps :: nat

text \<open>
  The module-level variables. \<open>pendingFrame\<close> is the callback registered with
  \<^verbatim>\<open>requestAnimationFrame\<close> and not yet run or cancelled, with the trajectory its closure
  holds; the source keeps its request id in \<^verbatim>\<open>animFrame\<close>, and cancelling an id whose
  callback has already run does nothing.
\<close>

record state =
  trajectories :: "entry list"
  colorIdx :: nat
  computedKeys :: "string set"
  pendingFrame :: "entry option"
  animTraj :: "entry option"
  animIdx :: nat
  isRunning :: bool

definition init :: state where
  "init = \<lparr>trajectories = [], colorIdx = 0, computedKeys = {}, pendingFrame = None,
           animTraj = None, animIdx = 0, isRunning = False\<rparr>"

text \<open>
  What \<^verbatim>\<open>simulate\<close> reads from the page. \<open>None\<close> is a \<^verbatim>\<open>parseFloat\<close> result of NaN, kept
  for the four fields where the source handles it; the other numeric fields are taken to
  have parsed to numbers, of either sign. \<open>f_shapeName\<close> is \<open>None\<close> when no shape button
  is active.
\<close>

record form =
  f_dt :: "real option"
  f_v0 :: real
  f_angle :: real
  f_mass :: real
  f_area :: real
  f_y0 :: "real option"
  f_windSpeed :: "real option"
  f_windDir :: "real option"
  f_atmo :: string
  f_cd :: real
  f_shapeName :: "string option"

text \<open>\<^verbatim>\<open>parseFloat(...) || 0\<close>: NaN and zero both give zero.\<close>

definition orZero :: "real option \<Rightarrow> real" where
  "orZero v = (case v of None \<Rightarrow> 0 | Some r \<Rightarrow> r)"

text \<open>The ten values the key of \<^verbatim>\<open>simulate\<close> is built from, in the order of the template.\<close>

record params =
  sp_dt :: real
  sp_cd :: real
  sp_atmo :: string
  sp_windSpeed :: real
  sp_windDir :: real
  sp_v0 :: real
  sp_angle :: real
  sp_mass :: real
  sp_area :: real
  sp_y0 :: real

definition paramsOf :: "form \<Rightarrow> real \<Rightarrow> params" where
  "paramsOf f dt =
     \<lparr>sp_dt = dt, sp_cd = f_cd f, sp_atmo = f_atmo f,
      sp_windSpeed = orZero (f_windSpeed f), sp_windDir = orZero (f_windDir f),
      sp_v0 = f_v0 f, sp_angle = f_angle f, sp_mass = f_mass f, sp_area = f_area f,
      sp_y0 = orZero (f_y0 f)\<rparr>"

text \<open>
  The key template. The conversion of a number to text inside a template literal is
  the language's own and is taken as the parameter \<open>fmt\<close>.
\<close>

definition fingerprint :: "(real \<Rightarrow> string) \<Rightarrow> params \<Rightarrow> string" where
  "fingerprint fmt p =
     fmt (sp_dt p) @ ''_'' @ fmt (sp_cd p) @ ''_'' @ sp_atmo p @ ''_'' @
     fmt (sp_windSpeed p) @ ''_'' @ fmt (sp_windDir p) @ ''_'' @ fmt (sp_v0 p) @ ''_'' @
     fmt (sp_angle p) @ ''_'' @ fmt (sp_mass p) @ ''_'' @ fmt (sp_area p) @ ''_'' @
     fmt (sp_y0 p)"

definition entryOf :: "form \<Rightarrow> real \<Rightarrow> string \<Rightarrow> entry" where
  "entryOf f dt color =
     (let p = paramsOf f dt;
          result = runPhysics (sp_v0 p) (sp_angle p) (sp_mass p) (sp_cd p) (sp_area p)
                     (sp_dt p) (sp_y0 p) (sp_windSpeed p) (sp_windDir p) (sp_atmo p)
      in \<lparr>e_dt = dt, e_color = color,
          e_shapeName = (case f_shapeName f of None \<Rightarrow> ''Custom'' | Some n \<Rightarrow> n),
          e_cd = sp_cd p, e_atmo = sp_atmo p, e_windSpeed = sp_windSpeed p,
          e_pts = r_pts result, e_range = r_range result, e_maxH = r_maxH result,
          e_finalV = r_finalV result, e_steps = r_steps result\<rparr>)"

subsection \<open>Animated projectile\<close>

definition animateProjectile :: "entry \<Rightarrow> state \<Rightarrow> state" where
  "animateProjectile traj s =
     s\<lparr>pendingFrame := Some traj, animTraj := Some traj, animIdx := 0, isRunning := True\<rparr>"

text \<open>The callback \<^verbatim>\<open>step\<close>, run by the browser when a frame is due.\<close>

definition frameStep :: "state \<Rightarrow> state" where
  "frameStep s =
     (case pendingFrame s of
        None \<Rightarrow> s
      | Some traj \<Rightarrow>
          let idx = animIdx s + max 1 (length (e_pts traj) div 300) in
          if idx \<ge> length (e_pts traj)
          then s\<lparr>animIdx := length (e_pts traj) - 1, isRunning := False,
                 animTraj := None, pendingFrame := None\<rparr>
          else s\<lparr>animIdx := idx, pendingFrame := Some traj\<rparr>)"

text \<open>The browser running the scheduled frames until the playback has ended.\<close>

function playToEnd :: "state \<Rightarrow> state" where
  "playToEnd s = (if pendingFrame s = None then s else playToEnd (frameStep s))"
  by pat_completeness auto
termination
  by (relation "measure (\<lambda>s. case pendingFrame s of None \<Rightarrow> 0
                               | Some t \<Rightarrow> Suc (length (e_pts t) - animIdx s))")
     (auto simp: frameStep_def Let_def split: option.splits)

declare playToEnd.simps [simp del]

subsection \<open>Simulate and clear\<close>

text \<open>The warning a call logs before returning early, or that it ran to the end.\<close>

datatype outcome = AlreadyRunning | InvalidTimeStep | AlreadyComputed | MaxReached | Computed

definition simulate :: "(real \<Rightarrow> string) \<Rightarrow> form \<Rightarrow> state \<Rightarrow> outcome \<times> state" where
  "simulate fmt f s =
     (if isRunning s then (AlreadyRunning, s)
      else case f_dt f of
        None \<Rightarrow> (InvalidTimeStep, s)
      | Some dt \<Rightarrow>
          if dt \<le> 0 then (InvalidTimeStep, s)
          else
            let key = fingerprint fmt (paramsOf f dt) in
            if key \<in> computedKeys s then (AlreadyComputed, s)
            else if length (trajectories s) \<ge> MAX_TRAJ then (MaxReached, s)
            else
              let color = COLORS ! (colorIdx s mod length COLORS);
                  entry = entryOf f dt color
              in (Computed,
                  animateProjectile entry
                    (s\<lparr>colorIdx := colorIdx s + 1,
                       computedKeys := insert key (computedKeys s),
                       trajectories := trajectories s @ [entry]\<rparr>)))"

definition clearAll :: "state \<Rightarrow> state" where
  "clearAll s =
     (if isRunning s then s
      else s\<lparr>pendingFrame := None, trajectories := [], colorIdx := 0,
             computedKeys := {}, animTraj := None\<rparr>)"

text \<open>The states the script can be in: calls of the two buttons and frames, in any order.\<close>

inductive reachable :: "(real \<Rightarrow> string) \<Rightarrow> state \<Rightarrow> bool" for fmt :: "real \<Rightarrow> string" where
  reach_init: "reachable fmt init"
| reach_simulate: "reachable fmt s \<Longrightarrow> reachable fmt (snd (simulate fmt f s))"
| reach_clear: "reachable fmt s \<Longrightarrow> reachable fmt (clearAll s)"
| reach_frame: "reachable fmt s \<Longrightarrow> reachable fmt (frameStep s)"

text \<open>A run of simulations, each played to its end before the next is started.\<close>

definition simulateAll :: "(real \<Rightarrow> string) \<Rightarrow> form list \<Rightarrow> state \<Rightarrow> state" where
  "simulateAll fmt fs s = foldl (\<lambda>t f. playToEnd (snd (simulate fmt f t))) s fs"

subsection \<open>Notions used to state the properties\<close>

text \<open>
  The test \<^verbatim>\<open>simulate\<close> applies to the parsed time step (\<^verbatim>\<open>isNaN(dt) || dt <= 0\<close> rejects),
  and the key it builds, as functions of the form.
\<close>

definition validDt :: "form \<Rightarrow> bool" where
  "validDt f \<longleftrightarrow> (case f_dt f of None \<Rightarrow> False | Some d \<Rightarrow> 0 < d)"

definition keyOf :: "(real \<Rightarrow> string) \<Rightarrow> form \<Rightarrow> string" where
  "keyOf fmt f = (case f_dt f of None \<Rightarrow> [] | Some d \<Rightarrow> fingerprint fmt (paramsOf f d))"

text \<open>The ten fields of the key, and two parameter tuples that differ in one of them only.\<close>

datatype field = Dt | Cd | Atmo | WindSpeed | WindDir | V0 | Angle | Mass | Area | Y0

definition allFields :: "field list" where
  "allFields = [Dt, Cd, Atmo, WindSpeed, WindDir, V0, Angle, Mass, Area, Y0]"

fun sameField :: "field \<Rightarrow> params \<Rightarrow> params \<Rightarrow> bool" where
  "sameField Dt p q \<longleftrightarrow> sp_dt p = sp_dt q"
| "sameField Cd p q \<longleftrightarrow> sp_cd p = sp_cd q"
| "sameField Atmo p q \<longleftrightarrow> sp_atmo p = sp_atmo q"
| "sameField WindSpeed p q \<longleftrightarrow> sp_windSpeed p = sp_windSpeed q"
| "sameField WindDir p q \<longleftrightarrow> sp_windDir p = sp_windDir q"
| "sameField V0 p q \<longleftrightarrow> sp_v0 p = sp_v0 q"
| "sameField Angle p q \<longleftrightarrow> sp_angle p = sp_angle q"
| "sameField Mass p q \<longleftrightarrow> sp_mass p = sp_mass q"
| "sameField Area p q \<longleftrightarrow> sp_area p = sp_area q"
| "sameField Y0 p q \<longleftrightarrow> sp_y0 p = sp_y0 q"

definition differOnlyIn :: "field \<Rightarrow> params \<Rightarrow> params \<Rightarrow> bool" where
  "differOnlyIn fld p q \<longleftrightarrow>
     \<not> sameField fld p q \<and> list_all (\<lambda>g. g = fld \<or> sameField g p q) allFields"

definition numbersOf :: "params \<Rightarrow> real set" where
  "numbersOf p = {sp_dt p, sp_cd p, sp_windSpeed p, sp_windDir p, sp_v0 p, sp_angle p,
                  sp_mass p, sp_area p, sp_y0 p}"

text \<open>The invariant of the store that every reachable state satisfies.\<close>

definition storeInv :: "state \<Rightarrow> bool" where
  "storeInv s \<longleftrightarrow>
     length (trajectories s) \<le> MAX_TRAJ \<and> colorIdx s = length (trajectories s) \<and>
     (\<forall>i<length (trajectories s). e_color (trajectories s ! i) = COLORS ! (i mod length COLORS)) \<and>
     (isRunning s \<longrightarrow> pendingFrame s \<noteq> None)"

subsection \<open>Sample inputs\<close>

text \<open>
  The text of a whole number, as a template literal prints it. It stands in for the
  language's conversion in the examples below, which use whole numbers only.
\<close>

definition digitChar :: "nat \<Rightarrow> char" where
  "digitChar d = ''0123456789'' ! d"

fun digitsOf :: "nat \<Rightarrow> string" where
  "digitsOf n = (if n < 10 then [digitChar n] else digitsOf (n div 10) @ [digitChar (n mod 10)])"

declare digitsOf.simps [simp del]

definition fmtWhole :: "real \<Rightarrow> string" where
  "fmtWhole r = (if r < 0 then ''-'' @ digitsOf (nat \<lfloor>- r\<rfloor>) else digitsOf (nat \<lfloor>r\<rfloor>))"

definition sampleForm :: form where
  "sampleForm = \<lparr>f_dt = Some 1, f_v0 = 20, f_angle = 45, f_mass = 1, f_area = 1,
                 f_y0 = Some 0, f_windSpeed = Some 0, f_windDir = Some 0,
                 f_atmo = ''const'', f_cd = 1, f_shapeName = Some ''Sphere''\<rparr>"

text \<open>Twenty forms that differ in the time step only, a twenty-first, and the store after
  the twenty have been simulated and played.\<close>

definition sampleForms :: "form list" where
  "sampleForms = map (\<lambda>d. sampleForm\<lparr>f_dt := Some d\<rparr>)
     [1, 2, 3, 4, 5, 6, 7, 8, 9, 10, 11, 12, 13, 14, 15, 16, 17, 18, 19, 20]"

definition sampleForm21 :: form where
  "sampleForm21 = sampleForm\<lparr>f_dt := Some 21\<rparr>"

definition sampleStore :: state where
  "sampleStore = simulateAll fmtWhole sampleForms init"

subsection \<open>The loop of the integrator\<close>

text \<open>
  The two lemmas on the step count hold in the reading of numbers as exact reals, where
  the clamp keeps \<open>y\<close> at or above 0 after every iteration. In the doubles of the source
  the loop also ends when the arithmetic overflows and \<open>y\<close> becomes NaN, which happens
  for parameters that make the drag term grow without bound (a large drag factor with a
  large time step); they say nothing about such inputs.
\<close>

lemma loopBody_steps [simp]:
  "ls_steps (loopBody cd area mass dt windX atmoModel s) = ls_steps s + 1"
  by (simp add: loopBody_def integrateStep_def Let_def)

lemma loopBody_y_nonneg:
  "0 \<le> ls_y (loopBody cd area mass dt windX atmoModel s)"
  by (simp add: loopBody_def integrateStep_def Let_def)

lemma physLoop_steps_cap:
  "0 \<le> ls_y s \<Longrightarrow> ls_steps s \<le> maxSteps \<Longrightarrow>
   ls_steps (physLoop cd area mass dt windX atmoModel s) = maxSteps"
proof (induction cd area mass dt windX atmoModel s rule: physLoop.induct)
  case (1 cd area mass dt windX atmoModel s)
  show ?case
  proof (cases "ls_steps s < maxSteps")
    case True
    with "1.prems" have run: "ls_y s \<ge> 0 \<and> ls_steps s < maxSteps" by simp
    have "ls_steps (physLoop cd area mass dt windX atmoModel
            (loopBody cd area mass dt windX atmoModel s)) = maxSteps"
      using "1.IH" [OF run loopBody_y_nonneg] True by simp
    with run show ?thesis by (subst physLoop.simps) simp
  next
    case False
    with "1.prems" have "ls_steps s = maxSteps" by simp
    then show ?thesis by (subst physLoop.simps) simp
  qed
qed

lemma runPhysics_steps_cap:
  "0 \<le> y0 \<Longrightarrow>
   r_steps (runPhysics v0 angleDeg mass cd area dt y0 windSpeed windDirDeg atmoModel) = maxSteps"
  by (simp add: runPhysics_def Let_def physLoop_steps_cap)

subsection \<open>Simulate, frames and the invariant\<close>

lemma simulate_running: "isRunning s \<Longrightarrow> simulate fmt f s = (AlreadyRunning, s)"
  by (simp add: simulate_def)

lemma simulate_invalid:
  "\<not> isRunning s \<Longrightarrow> \<not> validDt f \<Longrightarrow> simulate fmt f s = (InvalidTimeStep, s)"
  by (simp add: simulate_def validDt_def split: option.splits)

lemma simulate_duplicate:
  "\<not> isRunning s \<Longrightarrow> validDt f \<Longrightarrow> keyOf fmt f \<in> computedKeys s \<Longrightarrow>
   simulate fmt f s = (AlreadyComputed, s)"
  by (auto simp: simulate_def validDt_def keyOf_def Let_def split: option.splits)

lemma simulate_full:
  "\<not> isRunning s \<Longrightarrow> validDt f \<Longrightarrow> keyOf fmt f \<notin> computedKeys s \<Longrightarrow>
   MAX_TRAJ \<le> length (trajectories s) \<Longrightarrow> simulate fmt f s = (MaxReached, s)"
  by (auto simp: simulate_def validDt_def keyOf_def Let_def split: option.splits)

lemma simulate_stores:
  "\<not> isRunning s \<Longrightarrow> f_dt f = Some d \<Longrightarrow> 0 < d \<Longrightarrow> keyOf fmt f \<notin> computedKeys s \<Longrightarrow>
   length (trajectories s) < MAX_TRAJ \<Longrightarrow>
   simulate fmt f s =
     (Computed,
      animateProjectile (entryOf f d (COLORS ! (colorIdx s mod length COLORS)))
        (s\<lparr>colorIdx := colorIdx s + 1,
           computedKeys := insert (keyOf fmt f) (computedKeys s),
           trajectories := trajectories s
              @ [entryOf f d (COLORS ! (colorIdx s mod length COLORS))]\<rparr>))"
  by (simp add: simulate_def keyOf_def Let_def)

lemma simulate_rejected_unchanged:
  "fst (simulate fmt f s) \<noteq> Computed \<Longrightarrow> snd (simulate fmt f s) = s"
  by (auto simp: simulate_def Let_def split: option.splits if_splits)

lemma simulate_full_unchanged:
  "MAX_TRAJ \<le> length (trajectories s) \<Longrightarrow> snd (simulate fmt f s) = s"
  by (auto simp: simulate_def Let_def split: option.splits)

lemma frameStep_store [simp]:
  "trajectories (frameStep s) = trajectories s"
  "colorIdx (frameStep s) = colorIdx s"
  "computedKeys (frameStep s) = computedKeys s"
  by (simp_all add: frameStep_def Let_def split: option.splits)

lemma frameStep_running:
  "isRunning s \<longrightarrow> pendingFrame s \<noteq> None \<Longrightarrow>
   isRunning (frameStep s) \<longrightarrow> pendingFrame (frameStep s) \<noteq> None"
  by (auto simp: frameStep_def Let_def split: option.splits)

lemma playToEnd_idle: "pendingFrame s = None \<Longrightarrow> playToEnd s = s"
  by (subst playToEnd.simps) simp

lemma playToEnd_frame: "pendingFrame s \<noteq> None \<Longrightarrow> playToEnd s = playToEnd (frameStep s)"
  by (subst playToEnd.simps) auto

lemma playToEnd_store [simp]:
  "trajectories (playToEnd s) = trajectories s \<and> colorIdx (playToEnd s) = colorIdx s
   \<and> computedKeys (playToEnd s) = computedKeys s"
proof (induction s rule: playToEnd.induct)
  case (1 s)
  show ?case
  proof (cases "pendingFrame s = None")
    case True
    then show ?thesis by (simp add: playToEnd_idle)
  next
    case False
    with "1.IH" show ?thesis by (simp add: playToEnd_frame)
  qed
qed

lemma playToEnd_pending [simp]: "pendingFrame (playToEnd s) = None"
proof (induction s rule: playToEnd.induct)
  case (1 s)
  then show ?case by (subst playToEnd.simps) simp
qed

lemma playToEnd_stopped:
  "isRunning s \<longrightarrow> pendingFrame s \<noteq> None \<Longrightarrow> \<not> isRunning (playToEnd s)"
proof (induction s rule: playToEnd.induct)
  case (1 s)
  show ?case
  proof (cases "pendingFrame s = None")
    case True
    with "1.prems" show ?thesis by (subst playToEnd.simps) simp
  next
    case False
    from "1.IH" [OF False frameStep_running [OF "1.prems"]] False
    show ?thesis by (subst playToEnd.simps) auto
  qed
qed

lemma storeInv_init: "storeInv init"
  by (simp add: storeInv_def init_def)

lemma storeInv_simulate: "storeInv s \<Longrightarrow> storeInv (snd (simulate fmt f s))"
  by (auto simp: simulate_def storeInv_def animateProjectile_def entryOf_def Let_def nth_append
           less_Suc_eq split: option.splits)

lemma storeInv_clearAll: "storeInv s \<Longrightarrow> storeInv (clearAll s)"
  by (simp add: storeInv_def clearAll_def)

lemma storeInv_frameStep: "storeInv s \<Longrightarrow> storeInv (frameStep s)"
  using frameStep_running [of s] by (simp add: storeInv_def)

lemma reachable_storeInv: "reachable fmt s \<Longrightarrow> storeInv s"
  by (induction rule: reachable.induct)
     (simp_all add: storeInv_init storeInv_simulate storeInv_clearAll storeInv_frameStep)

lemma reachable_playToEnd: "reachable fmt s \<Longrightarrow> reachable fmt (playToEnd s)"
proof (induction s rule: playToEnd.induct)
  case (1 s)
  show ?case
  proof (cases "pendingFrame s = None")
    case True
    with "1.prems" show ?thesis by (simp add: playToEnd_idle)
  next
    case False
    from "1.IH" [OF False reach_frame [OF "1.prems"]] False
    show ?thesis by (subst playToEnd.simps) auto
  qed
qed

lemma simulateAll_snoc:
  "simulateAll fmt (fs @ [f]) s = playToEnd (snd (simulate fmt f (simulateAll fmt fs s)))"
  by (simp add: simulateAll_def)

lemma reachable_simulateAll: "reachable fmt s \<Longrightarrow> reachable fmt (simulateAll fmt fs s)"
proof (induction fs rule: rev_induct)
  case Nil
  then show ?case by (simp add: simulateAll_def)
next
  case (snoc f fs)
  then show ?case
    by (simp add: simulateAll_snoc reachable_playToEnd reach_simulate)
qed

lemma simulateAll_accepts:
  assumes "\<forall>f\<in>set fs. validDt f" and "distinct (map (keyOf fmt) fs)"
    and "length fs \<le> MAX_TRAJ"
  shows "\<not> isRunning (simulateAll fmt fs init) \<and>
         pendingFrame (simulateAll fmt fs init) = None \<and>
         colorIdx (simulateAll fmt fs init) = length fs \<and>
         computedKeys (simulateAll fmt fs init) = set (map (keyOf fmt) fs) \<and>
         length (trajectories (simulateAll fmt fs init)) = length fs \<and>
         (\<forall>i<length fs. \<exists>d. f_dt (fs ! i) = Some d \<and>
            trajectories (simulateAll fmt fs init) ! i
              = entryOf (fs ! i) d (COLORS ! (i mod length COLORS)))"
  using assms
proof (induction fs rule: rev_induct)
  case Nil
  then show ?case by (simp add: simulateAll_def init_def)
next
  case (snoc f fs)
  let ?S = "simulateAll fmt fs init"
  from snoc.prems have pre: "\<forall>f\<in>set fs. validDt f" "distinct (map (keyOf fmt) fs)"
    "length fs \<le> MAX_TRAJ" by simp_all
  note ih = snoc.IH [OF pre]
  from snoc.prems(1) obtain d where d: "f_dt f = Some d" "0 < d"
    by (auto simp: validDt_def split: option.splits)
  from snoc.prems(2) ih have fresh: "keyOf fmt f \<notin> computedKeys ?S" by simp
  from snoc.prems(3) ih have room: "length (trajectories ?S) < MAX_TRAJ" by simp
  from ih have idle: "\<not> isRunning ?S" by simp
  let ?e = "entryOf f d (COLORS ! (colorIdx ?S mod length COLORS))"
  have sim: "snd (simulate fmt f ?S) =
     animateProjectile ?e
       (?S\<lparr>colorIdx := colorIdx ?S + 1,
           computedKeys := insert (keyOf fmt f) (computedKeys ?S),
           trajectories := trajectories ?S @ [?e]\<rparr>)"
    by (simp add: simulate_stores [OF idle d fresh room])
  have stopped: "\<not> isRunning (playToEnd (snd (simulate fmt f ?S)))"
    by (rule playToEnd_stopped) (simp add: sim animateProjectile_def)
  have tr: "trajectories (simulateAll fmt (fs @ [f]) init) = trajectories ?S @ [?e]"
    by (simp add: simulateAll_snoc sim animateProjectile_def)
  have nth: "\<exists>d. f_dt ((fs @ [f]) ! i) = Some d \<and>
            trajectories (simulateAll fmt (fs @ [f]) init) ! i
              = entryOf ((fs @ [f]) ! i) d (COLORS ! (i mod length COLORS))"
    if "i < length (fs @ [f])" for i
  proof (cases "i < length fs")
    case True
    with ih show ?thesis by (simp add: tr nth_append)
  next
    case False
    with that have "i = length fs" by simp
    with ih d show ?thesis by (simp add: tr nth_append)
  qed
  from stopped ih nth show ?case
    by (simp add: simulateAll_snoc sim animateProjectile_def)
qed

subsection \<open>The sample store\<close>

lemma sampleForms_length: "length sampleForms = 20"
  by (simp add: sampleForms_def)

lemma sampleForms_valid: "\<forall>h\<in>set (sampleForms @ [sampleForm21]). validDt h"
  by (simp add: sampleForms_def sampleForm21_def validDt_def)

lemma sampleForms_distinct: "distinct (map (keyOf fmtWhole) (sampleForms @ [sampleForm21]))"
  by (simp add: sampleForms_def sampleForm21_def sampleForm_def keyOf_def fingerprint_def
        paramsOf_def orZero_def fmtWhole_def digitsOf.simps digitChar_def)

lemma sampleStore_facts:
  "\<not> isRunning sampleStore" "pendingFrame sampleStore = None" "colorIdx sampleStore = 20"
  "computedKeys sampleStore = set (map (keyOf fmtWhole) sampleForms)"
  "length (trajectories sampleStore) = 20"
  using simulateAll_accepts [of sampleForms fmtWhole] sampleForms_valid sampleForms_distinct
  by (simp_all add: sampleStore_def sampleForms_length MAX_TRAJ_def)

lemma sampleStore_reachable: "reachable fmtWhole sampleStore"
  unfolding sampleStore_def by (rule reachable_simulateAll) (rule reach_init)

lemma sampleForm21_fresh: "keyOf fmtWhole sampleForm21 \<notin> computedKeys sampleStore"
  using sampleForms_distinct by (simp add: sampleStore_facts)

lemma sampleForm_dup: "keyOf fmtWhole sampleForm \<in> computedKeys sampleStore"
  by (simp add: sampleStore_facts sampleForms_def sampleForm_def keyOf_def)

subsection \<open>Claims about the integrator\<close>

text \<open>
  C1 (the integrator stops at the ground crossing, with a step count below the cap).
  The code does not: the crossing clamps \<open>y\<close> to 0, the loop condition \<open>y \<ge> 0\<close> still
  holds, and the loop goes on to the cap. Launched level from the ground with
  \<open>v0 = 10\<close>, \<open>dt = 0.1\<close>, mass 1, \<open>Cd = 0.47\<close>, area 0.01, no wind and constant density,
  the first update already takes \<open>y\<close> below 0, and the step count returned is the cap
  of 20,000,000 all the same.
\<close>

theorem ground_crossing_runs_to_cap:
  "ls_y (integrateStep 0.47 0.01 1 0.1 (windXOf 0 0) ''const''
           \<lparr>ls_vx = initVx 10 0, ls_vy = initVy 10 0, ls_x = 0, ls_y = 0,
            ls_pts = [\<lparr>p_x = 0, p_y = 0\<rparr>], ls_maxH = 0, ls_steps = 0\<rparr>) < 0
   \<and> r_steps (runPhysics 10 0 1 0.47 0.01 0.1 0 0 0 ''const'') = 20000000"
proof -
  have "r_steps (runPhysics 10 0 1 0.47 0.01 0.1 0 0 0 ''const'') = maxSteps"
    by (rule runPhysics_steps_cap) simp
  then show ?thesis
    by (simp add: integrateStep_def initVx_def initVy_def windXOf_def G_def Let_def maxSteps_def)
qed




subsection \<open>Claims about simulate, the store and clearAll\<close>

text \<open>
  C3, as stated (a mass, launch speed or area that is not positive is rejected before any
  integration), fails: only the time step is tested. The sample form with mass -1 is
  integrated and stored.
\<close>

theorem nonpositive_mass_accepted:
  "f_dt (sampleForm\<lparr>f_mass := - 1\<rparr>) = Some 1 \<and> f_mass (sampleForm\<lparr>f_mass := - 1\<rparr>) \<le> 0
   \<and> fst (simulate fmtWhole (sampleForm\<lparr>f_mass := - 1\<rparr>) init) = Computed
   \<and> trajectories (snd (simulate fmtWhole (sampleForm\<lparr>f_mass := - 1\<rparr>) init))
       = [entryOf (sampleForm\<lparr>f_mass := - 1\<rparr>) 1 ''#00d4ff'']"
  by (simp add: simulate_def sampleForm_def init_def MAX_TRAJ_def Let_def animateProjectile_def
        COLORS_def)

text \<open>
  C3, amended: when no playback is running, \<^verbatim>\<open>simulate\<close> rejects the call with the
  invalid-time-step warning and leaves the state as it was whenever the time step is NaN
  or at most 0; the launch speed, the mass and the area are not validated: for a
  positive time step, a key not yet computed and fewer than 20 stored trajectories it
  integrates the parameters as given and appends the resulting entry.
\<close>

theorem time_step_validation:
  assumes "\<not> isRunning s"
  shows "(f_dt f = None \<or> (f_dt f = Some d \<and> d \<le> 0) \<longrightarrow>
            simulate fmt f s = (InvalidTimeStep, s)) \<and>
         (f_dt g = Some e \<and> 0 < e \<and> fingerprint fmt (paramsOf g e) \<notin> computedKeys s
            \<and> length (trajectories s) < MAX_TRAJ \<longrightarrow>
            fst (simulate fmt g s) = Computed \<and>
            trajectories (snd (simulate fmt g s))
              = trajectories s @ [entryOf g e (COLORS ! (colorIdx s mod length COLORS))])"
  using assms
  by (auto simp: simulate_def Let_def animateProjectile_def)

theorem time_step_validation_witness:
  "\<not> isRunning init \<and> f_dt (sampleForm\<lparr>f_dt := Some 0\<rparr>) = Some 0 \<and> (0::real) \<le> 0
   \<and> simulate fmtWhole (sampleForm\<lparr>f_dt := Some 0\<rparr>) init = (InvalidTimeStep, init)
   \<and> f_dt (sampleForm\<lparr>f_mass := - 1\<rparr>) = Some 1 \<and> (0::real) < 1
   \<and> fingerprint fmtWhole (paramsOf (sampleForm\<lparr>f_mass := - 1\<rparr>) 1) \<notin> computedKeys init
   \<and> length (trajectories init) < MAX_TRAJ
   \<and> fst (simulate fmtWhole (sampleForm\<lparr>f_mass := - 1\<rparr>) init) = Computed
   \<and> trajectories (snd (simulate fmtWhole (sampleForm\<lparr>f_mass := - 1\<rparr>) init))
       = [entryOf (sampleForm\<lparr>f_mass := - 1\<rparr>) 1 (COLORS ! 0)]"
proof -
  have i: "\<not> isRunning init" by (simp add: init_def)
  show ?thesis
    using time_step_validation [OF i, of "sampleForm\<lparr>f_dt := Some 0\<rparr>" 0 fmtWhole
        "sampleForm\<lparr>f_mass := - 1\<rparr>" 1]
    by (simp add: init_def sampleForm_def MAX_TRAJ_def)
qed

text \<open>
  C4: a reachable state holds at most 20 trajectories; a simulation asked for when 20 are
  stored (no playback running, valid time step, new key) is rejected with the
  maximum-reached warning and changes nothing; and simulating 21 forms with valid time
  steps and distinct keys from the initial state, each played to its end, leaves the
  store as it was after the first 20, with the entries of these 20 in order.
\<close>

theorem store_capacity:
  "MAX_TRAJ = 20 \<and>
   (reachable fmt s \<longrightarrow> length (trajectories s) \<le> MAX_TRAJ) \<and>
   (\<not> isRunning t \<and> validDt f \<and> keyOf fmt f \<notin> computedKeys t
      \<and> MAX_TRAJ \<le> length (trajectories t) \<longrightarrow> simulate fmt f t = (MaxReached, t)) \<and>
   (length fs = MAX_TRAJ \<and> (\<forall>h\<in>set (fs @ [g]). validDt h)
      \<and> distinct (map (keyOf fmt) (fs @ [g])) \<longrightarrow>
        fst (simulate fmt g (simulateAll fmt fs init)) = MaxReached
      \<and> simulateAll fmt (fs @ [g]) init = simulateAll fmt fs init
      \<and> length (trajectories (simulateAll fmt (fs @ [g]) init)) = MAX_TRAJ
      \<and> (\<forall>i<MAX_TRAJ. \<exists>d. f_dt (fs ! i) = Some d \<and>
            trajectories (simulateAll fmt (fs @ [g]) init) ! i
              = entryOf (fs ! i) d (COLORS ! (i mod length COLORS))))"
proof (intro conjI impI)
  show "MAX_TRAJ = 20" by (simp add: MAX_TRAJ_def)
next
  assume "reachable fmt s"
  then have "storeInv s" by (rule reachable_storeInv)
  then show "length (trajectories s) \<le> MAX_TRAJ" by (simp add: storeInv_def)
next
  assume "\<not> isRunning t \<and> validDt f \<and> keyOf fmt f \<notin> computedKeys t
      \<and> MAX_TRAJ \<le> length (trajectories t)"
  then show "simulate fmt f t = (MaxReached, t)" by (simp add: simulate_full)
next
  assume h: "length fs = MAX_TRAJ \<and> (\<forall>h\<in>set (fs @ [g]). validDt h)
      \<and> distinct (map (keyOf fmt) (fs @ [g]))"
  let ?S = "simulateAll fmt fs init"
  from h have pre: "\<forall>f\<in>set fs. validDt f" "distinct (map (keyOf fmt) fs)"
    "length fs \<le> MAX_TRAJ" by simp_all
  note acc = simulateAll_accepts [OF pre]
  from h acc have full: "simulate fmt g ?S = (MaxReached, ?S)"
    by (intro simulate_full) simp_all
  from acc have same: "simulateAll fmt (fs @ [g]) init = ?S"
    by (simp add: simulateAll_snoc full playToEnd_idle)
  show "fst (simulate fmt g ?S) = MaxReached" by (simp add: full)
  show "simulateAll fmt (fs @ [g]) init = ?S" by (rule same)
  show "length (trajectories (simulateAll fmt (fs @ [g]) init)) = MAX_TRAJ"
    using acc h by (simp add: same)
  show "\<forall>i<MAX_TRAJ. \<exists>d. f_dt (fs ! i) = Some d \<and>
            trajectories (simulateAll fmt (fs @ [g]) init) ! i
              = entryOf (fs ! i) d (COLORS ! (i mod length COLORS))"
    using acc h by (simp add: same)
qed

theorem store_capacity_witness:
  "reachable fmtWhole sampleStore \<and> \<not> isRunning sampleStore \<and> validDt sampleForm21
   \<and> keyOf fmtWhole sampleForm21 \<notin> computedKeys sampleStore
   \<and> MAX_TRAJ \<le> length (trajectories sampleStore)
   \<and> length sampleForms = MAX_TRAJ \<and> list_all validDt (sampleForms @ [sampleForm21])
   \<and> distinct (map (keyOf fmtWhole) (sampleForms @ [sampleForm21]))
   \<and> length (trajectories sampleStore) \<le> MAX_TRAJ
   \<and> simulate fmtWhole sampleForm21 sampleStore = (MaxReached, sampleStore)
   \<and> simulateAll fmtWhole (sampleForms @ [sampleForm21]) init = sampleStore
   \<and> length (trajectories (simulateAll fmtWhole (sampleForms @ [sampleForm21]) init)) = 20"
  using store_capacity [of fmtWhole sampleStore sampleStore sampleForm21 sampleForms sampleForm21]
    sampleStore_reachable sampleStore_facts(1,5) sampleForm21_fresh sampleForms_valid
    sampleForms_distinct sampleForms_length
  by (simp add: MAX_TRAJ_def sampleStore_def list_all_iff)

text \<open>
  C5: a simulation whose key is already among the computed keys (no playback running,
  valid time step) is rejected with the already-computed warning and the whole state is
  as before; and every call that does not run to the end, for whatever reason, leaves
  the state unchanged.
\<close>

theorem duplicate_rejected:
  "(\<not> isRunning s \<and> f_dt f = Some d \<and> 0 < d
      \<and> fingerprint fmt (paramsOf f d) \<in> computedKeys s \<longrightarrow>
        simulate fmt f s = (AlreadyComputed, s)) \<and>
   (fst (simulate fmt g t) \<noteq> Computed \<longrightarrow> snd (simulate fmt g t) = t)"
  by (simp add: simulate_rejected_unchanged) (simp add: simulate_def)

theorem duplicate_rejected_witness:
  "reachable fmtWhole sampleStore \<and> \<not> isRunning sampleStore \<and> f_dt sampleForm = Some 1 \<and> (0::real) < 1
   \<and> fingerprint fmtWhole (paramsOf sampleForm 1) \<in> computedKeys sampleStore
   \<and> simulate fmtWhole sampleForm sampleStore = (AlreadyComputed, sampleStore)
   \<and> fst (simulate fmtWhole sampleForm21 sampleStore) \<noteq> Computed
   \<and> snd (simulate fmtWhole sampleForm21 sampleStore) = sampleStore"
proof -
  have k: "fingerprint fmtWhole (paramsOf sampleForm 1) \<in> computedKeys sampleStore"
    using sampleForm_dup by (simp add: keyOf_def sampleForm_def)
  have d: "f_dt sampleForm = Some 1" by (simp add: sampleForm_def)
  have full: "simulate fmtWhole sampleForm21 sampleStore = (MaxReached, sampleStore)"
    using sampleForms_valid sampleForm21_fresh
    by (intro simulate_full) (simp_all add: sampleStore_facts MAX_TRAJ_def)
  show ?thesis
    using duplicate_rejected [of sampleStore sampleForm 1 fmtWhole sampleForm21 sampleStore]
      sampleStore_reachable sampleStore_facts(1) k d full
    by simp
qed

text \<open>
  C6: in a reachable state the colour of the i-th stored trajectory is entry \<open>i mod 8\<close> of
  the palette of 8 colours, so the ninth has the colour of the first; a later
  simulation or frame leaves the stored entries, and so their colours, as they are.
\<close>

theorem color_cycle:
  assumes "reachable fmt s"
  shows "length COLORS = 8 \<and>
         (\<forall>i<length (trajectories s). e_color (trajectories s ! i) = COLORS ! (i mod 8)) \<and>
         (8 < length (trajectories s) \<longrightarrow>
            e_color (trajectories s ! 8) = e_color (trajectories s ! 0)) \<and>
         (\<forall>i<length (trajectories s).
            trajectories (snd (simulate fmt f s)) ! i = trajectories s ! i) \<and>
         trajectories (frameStep s) = trajectories s"
proof -
  have len: "length COLORS = 8" by (simp add: COLORS_def)
  from assms have "storeInv s" by (rule reachable_storeInv)
  then have col: "\<forall>i<length (trajectories s). e_color (trajectories s ! i) = COLORS ! (i mod 8)"
    by (simp add: storeInv_def len)
  have keep: "\<forall>i<length (trajectories s).
            trajectories (snd (simulate fmt f s)) ! i = trajectories s ! i"
    by (auto simp: simulate_def Let_def animateProjectile_def nth_append split: option.splits)
  have nine: "e_color (trajectories s ! 8) = e_color (trajectories s ! 0)"
    if "8 < length (trajectories s)"
  proof -
    from that have "(8::nat) < length (trajectories s)" and "(0::nat) < length (trajectories s)"
      by auto
    with col have "e_color (trajectories s ! 8) = COLORS ! (8 mod 8)"
      and "e_color (trajectories s ! 0) = COLORS ! (0 mod 8)" by blast+
    then show ?thesis by simp
  qed
  from len col keep nine show ?thesis by simp
qed

theorem color_cycle_witness:
  "reachable fmtWhole sampleStore \<and> 8 < length (trajectories sampleStore)
   \<and> e_color (trajectories sampleStore ! 8) = e_color (trajectories sampleStore ! 0)
   \<and> e_color (trajectories sampleStore ! 8) = ''#00d4ff''
   \<and> e_color (trajectories sampleStore ! 1) = ''#ff6b35''"
  using color_cycle [of fmtWhole sampleStore sampleForm21] sampleStore_reachable sampleStore_facts(5)
  by (simp add: COLORS_def)

text \<open>
  C7: the key is a function of the ten fields, so equal tuples have equal keys; and two
  tuples that differ in exactly one field have different keys, provided the number
  conversion gives different texts for the different numbers of the two tuples.
\<close>

theorem fingerprint_one_field:
  "(p = q \<longrightarrow> fingerprint fmt p = fingerprint fmt q) \<and>
   (differOnlyIn fld p q \<and> inj_on fmt (numbersOf p \<union> numbersOf q) \<longrightarrow>
      fingerprint fmt p \<noteq> fingerprint fmt q)"
proof (intro conjI impI)
  assume "p = q" then show "fingerprint fmt p = fingerprint fmt q" by simp
next
  assume h: "differOnlyIn fld p q \<and> inj_on fmt (numbersOf p \<union> numbersOf q)"
  then have inj: "\<And>a b. a \<in> numbersOf p \<Longrightarrow> b \<in> numbersOf q \<Longrightarrow> fmt a = fmt b \<Longrightarrow> a = b"
    by (auto dest: inj_onD)
  from h have d: "differOnlyIn fld p q" by simp
  show "fingerprint fmt p \<noteq> fingerprint fmt q"
  proof (cases fld)
    case Dt
    with d inj [of "sp_dt p" "sp_dt q"] show ?thesis
      by (auto simp: differOnlyIn_def allFields_def fingerprint_def numbersOf_def)
  next
    case Cd
    with d inj [of "sp_cd p" "sp_cd q"] show ?thesis
      by (auto simp: differOnlyIn_def allFields_def fingerprint_def numbersOf_def)
  next
    case Atmo
    with d show ?thesis
      by (auto simp: differOnlyIn_def allFields_def fingerprint_def)
  next
    case WindSpeed
    with d inj [of "sp_windSpeed p" "sp_windSpeed q"] show ?thesis
      by (auto simp: differOnlyIn_def allFields_def fingerprint_def numbersOf_def)
  next
    case WindDir
    with d inj [of "sp_windDir p" "sp_windDir q"] show ?thesis
      by (auto simp: differOnlyIn_def allFields_def fingerprint_def numbersOf_def)
  next
    case V0
    with d inj [of "sp_v0 p" "sp_v0 q"] show ?thesis
      by (auto simp: differOnlyIn_def allFields_def fingerprint_def numbersOf_def)
  next
    case Angle
    with d inj [of "sp_angle p" "sp_angle q"] show ?thesis
      by (auto simp: differOnlyIn_def allFields_def fingerprint_def numbersOf_def)
  next
    case Mass
    with d inj [of "sp_mass p" "sp_mass q"] show ?thesis
      by (auto simp: differOnlyIn_def allFields_def fingerprint_def numbersOf_def)
  next
    case Area
    with d inj [of "sp_area p" "sp_area q"] show ?thesis
      by (auto simp: differOnlyIn_def allFields_def fingerprint_def numbersOf_def)
  next
    case Y0
    with d inj [of "sp_y0 p" "sp_y0 q"] show ?thesis
      by (auto simp: differOnlyIn_def allFields_def fingerprint_def numbersOf_def)
  qed
qed

theorem fingerprint_one_field_witness:
  "differOnlyIn V0 (paramsOf sampleForm 1) (paramsOf (sampleForm\<lparr>f_v0 := 21\<rparr>) 1)
   \<and> inj_on fmtWhole (numbersOf (paramsOf sampleForm 1)
                       \<union> numbersOf (paramsOf (sampleForm\<lparr>f_v0 := 21\<rparr>) 1))
   \<and> fingerprint fmtWhole (paramsOf sampleForm 1)
       \<noteq> fingerprint fmtWhole (paramsOf (sampleForm\<lparr>f_v0 := 21\<rparr>) 1)
   \<and> fingerprint fmtWhole (paramsOf sampleForm 1) = ''1_1_const_0_0_20_45_1_1_0''"
proof -
  have d: "differOnlyIn V0 (paramsOf sampleForm 1) (paramsOf (sampleForm\<lparr>f_v0 := 21\<rparr>) 1)"
    by (simp add: differOnlyIn_def allFields_def paramsOf_def sampleForm_def)
  have n: "numbersOf (paramsOf sampleForm 1) \<union> numbersOf (paramsOf (sampleForm\<lparr>f_v0 := 21\<rparr>) 1)
           = {0, 1, 20, 21, 45}"
    by (auto simp: numbersOf_def paramsOf_def sampleForm_def orZero_def)
  have i: "inj_on fmtWhole {0, 1, 20, 21, 45}"
    by (simp add: fmtWhole_def digitsOf.simps digitChar_def)
  have k: "fingerprint fmtWhole (paramsOf sampleForm 1) = ''1_1_const_0_0_20_45_1_1_0''"
    by (simp add: fingerprint_def paramsOf_def sampleForm_def orZero_def fmtWhole_def
          digitsOf.simps digitChar_def)
  show ?thesis
    using fingerprint_one_field [of "paramsOf sampleForm 1" "paramsOf (sampleForm\<lparr>f_v0 := 21\<rparr>) 1"
        fmtWhole V0] d i k
    by (simp only: n) simp
qed

text \<open>
  C8, as stated (\<^verbatim>\<open>clearAll\<close> empties the store from every reachable state), fails: in the
  state right after a simulation the playback is running and \<^verbatim>\<open>clearAll\<close> returns at its
  first line.
\<close>

theorem clear_ignored_while_running:
  "reachable fmtWhole (snd (simulate fmtWhole sampleForm init))
   \<and> trajectories (clearAll (snd (simulate fmtWhole sampleForm init))) \<noteq> []
   \<and> computedKeys (clearAll (snd (simulate fmtWhole sampleForm init))) \<noteq> {}
   \<and> colorIdx (clearAll (snd (simulate fmtWhole sampleForm init))) = 1"
proof -
  have "reachable fmtWhole (snd (simulate fmtWhole sampleForm init))"
    by (rule reach_simulate) (rule reach_init)
  then show ?thesis
    by (simp add: simulate_def sampleForm_def init_def MAX_TRAJ_def Let_def animateProjectile_def
          clearAll_def)
qed

text \<open>
  C8, amended: from every state in which no playback is running, \<^verbatim>\<open>clearAll\<close> empties the
  trajectory list and the key set and sets the colour counter to 0; a simulation with a
  valid time step then runs, whatever was computed before, and its entry, the only one
  stored, has the first colour of the palette.
\<close>

theorem clear_when_idle:
  assumes "\<not> isRunning s"
  shows "trajectories (clearAll s) = [] \<and> computedKeys (clearAll s) = {}
         \<and> colorIdx (clearAll s) = 0
         \<and> (f_dt f = Some d \<and> 0 < d \<longrightarrow>
              fst (simulate fmt f (clearAll s)) = Computed
              \<and> trajectories (snd (simulate fmt f (clearAll s))) = [entryOf f d (COLORS ! 0)])"
  using assms
  by (auto simp: clearAll_def simulate_def Let_def animateProjectile_def MAX_TRAJ_def)

theorem clear_when_idle_witness:
  "\<not> isRunning sampleStore \<and> simulate fmtWhole sampleForm sampleStore = (AlreadyComputed, sampleStore)
   \<and> trajectories (clearAll sampleStore) = [] \<and> computedKeys (clearAll sampleStore) = {}
   \<and> colorIdx (clearAll sampleStore) = 0
   \<and> f_dt sampleForm = Some 1 \<and> (0::real) < 1
   \<and> fst (simulate fmtWhole sampleForm (clearAll sampleStore)) = Computed
   \<and> map e_color (trajectories (snd (simulate fmtWhole sampleForm (clearAll sampleStore))))
       = [''#00d4ff'']"
proof -
  have v: "validDt sampleForm" by (simp add: validDt_def sampleForm_def)
  have dup: "simulate fmtWhole sampleForm sampleStore = (AlreadyComputed, sampleStore)"
    using sampleStore_facts(1) v sampleForm_dup by (rule simulate_duplicate)
  have d: "f_dt sampleForm = Some 1" by (simp add: sampleForm_def)
  show ?thesis
    using clear_when_idle [OF sampleStore_facts(1), of sampleForm 1 fmtWhole] dup d
      sampleStore_facts(1)
    by (simp add: COLORS_def entryOf_def Let_def)
qed

text \<open>
  C10: while \<open>isRunning\<close> is set, \<^verbatim>\<open>simulate\<close> and \<^verbatim>\<open>clearAll\<close> return at their first line:
  the state, with its trajectories, keys and colour counter, is unchanged, and
  \<^verbatim>\<open>simulate\<close> reports that a simulation is already running.
\<close>

theorem running_blocks_buttons:
  assumes "isRunning s"
  shows "simulate fmt f s = (AlreadyRunning, s) \<and> clearAll s = s"
  using assms by (simp add: simulate_def clearAll_def)

theorem running_blocks_buttons_witness:
  "isRunning (snd (simulate fmtWhole sampleForm init))
   \<and> simulate fmtWhole sampleForm21 (snd (simulate fmtWhole sampleForm init))
       = (AlreadyRunning, snd (simulate fmtWhole sampleForm init))
   \<and> clearAll (snd (simulate fmtWhole sampleForm init)) = snd (simulate fmtWhole sampleForm init)"
proof -
  have r: "isRunning (snd (simulate fmtWhole sampleForm init))"
    by (simp add: simulate_def sampleForm_def init_def MAX_TRAJ_def Let_def animateProjectile_def)
  from running_blocks_buttons [OF r, of fmtWhole sampleForm21] r show ?thesis by simp
qed

end
